theory Spec2Isabelle
  imports Complex_Main "HOL-Library.Multiset"
begin

section \<open>Data model of server.js\<close>

text \<open>
  The values that \<open>JSON.parse\<close> returns, which are also the values that the body parsers
  of Express (\<open>express.json()\<close>, \<open>express.urlencoded({ extended: true })\<close>) put into the
  fields of \<open>req.body\<close>. A field that is absent (JavaScript \<open>undefined\<close>) is \<open>None\<close> of
  an \<open>option\<close>.
\<close>

datatype json =
    JNull
  | JBool bool
  | JNumber rat       \<comment> \<open>a finite number, by its value: \<open>+0\<close> and \<open>-0\<close> are one\<close>
  | JInfinite bool    \<comment> \<open>\<open>Infinity\<close> (\<open>True\<close>) or \<open>-Infinity\<close>, from a numeral beyond the doubles\<close>
  | JString string
  | JArray "json list"
  | JObject "(string \<times> json) list"

text \<open>
  The three JSON files under \<open>data/\<close> hold arrays of flat records. A field that a record
  of the file may lack is an \<open>option\<close>. The email and the name of an account are the
  values that signup stored, whatever their type; the display name of a session and the
  author name of a post are copies of an account name. \<open>createdAt\<close> is the time value
  (milliseconds since the epoch) that \<open>new Date(createdAt)\<close> recovers from the ISO text
  written by \<open>toISOString()\<close>.
\<close>

record account =
  email :: json
  password_hash :: "string option"
  name :: "json option"
  createdAt_acc :: "int option"

record post =
  post_id :: string
  title :: string
  content :: string
  authorEmail :: string
  authorName :: json
  createdAt :: int
  likes :: "string list"
  dislikes :: "string list"

datatype role = Admin | User

text \<open>\<open>req.session.user = { email, name, role }\<close>\<close>

record session_user =
  sess_email :: string
  sess_name :: json
  sess_role :: role

text \<open>
  The state the handlers read and write: the contents of \<open>admins.json\<close>,
  \<open>users.json\<close> and \<open>blogs.json\<close>, and \<open>req.session.user\<close> of the client
  (\<open>None\<close> when nobody is logged in).
\<close>

record state =
  admins :: "account list"
  users :: "account list"
  blogs :: "post list"
  session :: "session_user option"

datatype js_error =
    ErrnoError string    \<comment> \<open>a file system error, with its \<open>e.code\<close>\<close>
  | SyntaxError          \<comment> \<open>thrown by \<open>JSON.parse\<close>; it has no \<open>code\<close>\<close>
  | IllegalArguments     \<comment> \<open>thrown by bcryptjs when an argument is not a string\<close>

datatype view =
    Index "post list"
  | Login "string option"
  | Signup "string option"
  | NewPost

datatype response =
    Redirect string
  | Send nat string
  | Render nat view
  | Threw js_error

abbreviation InvalidCredentials :: response where
  "InvalidCredentials \<equiv> Render 401 (Login (Some ''Invalid credentials''))"

abbreviation AdminNotConfigured :: response where
  "AdminNotConfigured \<equiv> Send 400 ''Admin password not set. See README to set a hash.''"

abbreviation ValidationError :: response where
  "ValidationError \<equiv> Render 400 (Signup (Some ''Email and password required''))"

abbreviation DuplicateEmail :: response where
  "DuplicateEmail \<equiv> Render 400 (Signup (Some ''Email already exists''))"

abbreviation NotFound :: response where
  "NotFound \<equiv> Send 404 ''Post not found''"

abbreviation Forbidden :: response where
  "Forbidden \<equiv> Send 403 ''You can only delete your own posts''"

section \<open>JavaScript helpers\<close>

text \<open>
  \<open>!!x\<close>: \<open>undefined\<close>, \<open>null\<close>, \<open>false\<close>, zero and the empty string are falsy; an array
  or an object is truthy, also when it is empty.
\<close>

fun truthy :: "json option \<Rightarrow> bool" where
  "truthy None = False"
| "truthy (Some JNull) = False"
| "truthy (Some (JBool b)) = b"
| "truthy (Some (JNumber r)) = (r \<noteq> 0)"
| "truthy (Some (JInfinite b)) = True"
| "truthy (Some (JString s)) = (s \<noteq> [])"
| "truthy (Some (JArray xs)) = True"
| "truthy (Some (JObject kvs)) = True"

text \<open>\<open>x || d\<close> on values\<close>

definition or_value :: "json option \<Rightarrow> json \<Rightarrow> json" where
  "or_value x d = (if truthy x then the x else d)"

text \<open>
  \<open>a === b\<close> for a value read from a file and a value of the request body: primitive
  values are compared by value; an array or an object is only equal to itself, and the two
  sides are never the same object.
\<close>

fun primitive :: "json \<Rightarrow> bool" where
  "primitive (JArray xs) = False"
| "primitive (JObject kvs) = False"
| "primitive v = True"

definition strict_eq :: "json \<Rightarrow> json \<Rightarrow> bool" where
  "strict_eq a b = (primitive a \<and> a = b)"

text \<open>
  What a value is when it is read back after \<open>writeJSON\<close>: \<open>JSON.stringify\<close> writes an
  infinite number as \<open>null\<close>, inside arrays and objects too, and every other value so
  that \<open>JSON.parse\<close> returns an equal one.
\<close>

fun persist :: "json \<Rightarrow> json" where
  "persist (JInfinite b) = JNull"
| "persist (JArray xs) = JArray (map persist xs)"
| "persist (JObject kvs) = JObject (map (map_prod id persist) kvs)"
| "persist v = v"

text \<open>An account record when it is read back after \<open>writeJSON("users.json", users)\<close>.\<close>

definition persist_account :: "account \<Rightarrow> account" where
  "persist_account a = a\<lparr>email := persist (email a), name := map_option persist (name a)\<rparr>"

text \<open>\<open>!!x\<close> for a string that may be \<open>undefined\<close>: the empty string is falsy too.\<close>

fun truthy_string :: "string option \<Rightarrow> bool" where
  "truthy_string None = False"
| "truthy_string (Some s) = (s \<noteq> [])"

text \<open>\<open>x || d\<close> on strings\<close>

fun or_else :: "string option \<Rightarrow> string \<Rightarrow> string" where
  "or_else None d = d"
| "or_else (Some s) d = (if s = [] then d else s)"

text \<open>\<open>xs.findIndex(P)\<close>, with \<open>None\<close> for \<open>-1\<close>\<close>

fun findIndex :: "('a \<Rightarrow> bool) \<Rightarrow> 'a list \<Rightarrow> nat option" where
  "findIndex P [] = None"
| "findIndex P (x # xs) =
     (if P x then Some 0 else map_option Suc (findIndex P xs))"

text \<open>\<open>xs.splice(i, 1)\<close>\<close>

definition splice1 :: "nat \<Rightarrow> 'a list \<Rightarrow> 'a list" where
  "splice1 i xs = take i xs @ drop (Suc i) xs"

text \<open>
  \<open>xs.find(P)\<close> returns a reference into the array, and the handler then assigns to the
  fields of that object: the first element that satisfies \<open>P\<close> is replaced.
\<close>

fun update_first :: "('a \<Rightarrow> bool) \<Rightarrow> ('a \<Rightarrow> 'a) \<Rightarrow> 'a list \<Rightarrow> 'a list" where
  "update_first P f [] = []"
| "update_first P f (x # xs) = (if P x then f x # xs else x # update_first P f xs)"

text \<open>
  \<open>xs.sort(cmp)\<close>: a stable sort (ECMAScript 2019, Node 11 and later), as insertion
  from the right. An element goes before \<open>y\<close> when \<open>cmp x y \<le> 0\<close>.
\<close>

fun insert_sorted :: "('a \<Rightarrow> 'a \<Rightarrow> int) \<Rightarrow> 'a \<Rightarrow> 'a list \<Rightarrow> 'a list" where
  "insert_sorted cmp x [] = [x]"
| "insert_sorted cmp x (y # ys) =
     (if cmp x y \<le> 0 then x # y # ys else y # insert_sorted cmp x ys)"

definition Array_sort :: "('a \<Rightarrow> 'a \<Rightarrow> int) \<Rightarrow> 'a list \<Rightarrow> 'a list" where
  "Array_sort cmp xs = foldr (insert_sorted cmp) xs []"

section \<open>Auth helpers\<close>

definition isLoggedIn :: "state \<Rightarrow> bool" where
  "isLoggedIn st = (session st \<noteq> None)"

definition isAdmin :: "state \<Rightarrow> bool" where
  "isAdmin st = (isLoggedIn st \<and> map_option sess_role (session st) = Some Admin)"

section \<open>Like and dislike\<close>

text \<open>The body of \<open>POST /posts/:id/like\<close> on the post found, for the requester \<open>u\<close>.\<close>

definition toggle_like :: "string \<Rightarrow> post \<Rightarrow> post" where
  "toggle_like u p =
     (let p1 = p\<lparr>dislikes := filter (\<lambda>e. e \<noteq> u) (dislikes p)\<rparr>
      in if u \<in> set (likes p1)
         then p1\<lparr>likes := filter (\<lambda>e. e \<noteq> u) (likes p1)\<rparr>
         else p1\<lparr>likes := likes p1 @ [u]\<rparr>)"

definition toggle_dislike :: "string \<Rightarrow> post \<Rightarrow> post" where
  "toggle_dislike u p =
     (let p1 = p\<lparr>likes := filter (\<lambda>e. e \<noteq> u) (likes p)\<rparr>
      in if u \<in> set (dislikes p1)
         then p1\<lparr>dislikes := filter (\<lambda>e. e \<noteq> u) (dislikes p1)\<rparr>
         else p1\<lparr>dislikes := dislikes p1 @ [u]\<rparr>)"

text \<open>
  \<open>app.post("/posts/:id/like", requireAuth, ...)\<close>: \<open>requireAuth\<close> redirects a request
  without a session to the login page; a missing post is a 404; otherwise the post is
  changed in place and the whole array written back.
\<close>

definition post_like :: "string \<Rightarrow> state \<Rightarrow> response \<times> state" where
  "post_like pid st =
     (case session st of
        None \<Rightarrow> (Redirect ''/login'', st)
      | Some su \<Rightarrow>
          (case find (\<lambda>p. post_id p = pid) (blogs st) of
             None \<Rightarrow> (NotFound, st)
           | Some p \<Rightarrow>
               (Redirect ''/'',
                st\<lparr>blogs := update_first (\<lambda>p. post_id p = pid)
                                (toggle_like (sess_email su)) (blogs st)\<rparr>)))"

definition post_dislike :: "string \<Rightarrow> state \<Rightarrow> response \<times> state" where
  "post_dislike pid st =
     (case session st of
        None \<Rightarrow> (Redirect ''/login'', st)
      | Some su \<Rightarrow>
          (case find (\<lambda>p. post_id p = pid) (blogs st) of
             None \<Rightarrow> (NotFound, st)
           | Some p \<Rightarrow>
               (Redirect ''/'',
                st\<lparr>blogs := update_first (\<lambda>p. post_id p = pid)
                                (toggle_dislike (sess_email su)) (blogs st)\<rparr>)))"

section \<open>Posts\<close>

text \<open>
  \<open>GET /\<close>: the array read from \<open>blogs.json\<close> is sorted with the comparator
  \<open>new Date(b.createdAt) - new Date(a.createdAt)\<close> and rendered; nothing is written.
\<close>

definition get_index :: "state \<Rightarrow> response \<times> state" where
  "get_index st =
     (Render 200 (Index (Array_sort (\<lambda>a b. createdAt b - createdAt a) (blogs st))), st)"

text \<open>
  \<open>POST /posts\<close>. \<open>trim\<close> is \<open>String.prototype.trim\<close>, \<open>nid\<close> the value of
  \<open>nanoid(10)\<close> and \<open>now\<close> the clock reading of \<open>new Date()\<close> in this call;
  \<open>new_post\<close> is the object literal the handler builds.
\<close>

definition new_post ::
  "(string \<Rightarrow> string) \<Rightarrow> string \<Rightarrow> int \<Rightarrow> string option \<Rightarrow> string option
     \<Rightarrow> session_user \<Rightarrow> post" where
  "new_post trim nid now title_b content_b su =
     \<lparr>post_id = nid,
      title = or_else (map_option trim title_b) ''(untitled)'',
      content = or_else (map_option trim content_b) [],
      authorEmail = sess_email su,
      authorName = sess_name su,
      createdAt = now,
      likes = [],
      dislikes = []\<rparr>"

definition post_posts ::
  "(string \<Rightarrow> string) \<Rightarrow> string \<Rightarrow> int \<Rightarrow> string option \<Rightarrow> string option \<Rightarrow> state
     \<Rightarrow> response \<times> state" where
  "post_posts trim nid now title_b content_b st =
     (case session st of
        None \<Rightarrow> (Redirect ''/login'', st)
      | Some su \<Rightarrow>
          (let p = new_post trim nid now title_b content_b su
           in (Redirect ''/'', st\<lparr>blogs := blogs st @ [p]\<rparr>)))"

text \<open>\<open>DELETE /posts/:id\<close>\<close>

definition delete_post :: "string \<Rightarrow> state \<Rightarrow> response \<times> state" where
  "delete_post pid st =
     (case session st of
        None \<Rightarrow> (Redirect ''/login'', st)
      | Some su \<Rightarrow>
          (case findIndex (\<lambda>p. post_id p = pid) (blogs st) of
             None \<Rightarrow> (NotFound, st)
           | Some idx \<Rightarrow>
               (let p = blogs st ! idx
                in if \<not> isAdmin st \<and> authorEmail p \<noteq> sess_email su
                   then (Forbidden, st)
                   else (Redirect ''/'', st\<lparr>blogs := splice1 idx (blogs st)\<rparr>))))"

section \<open>Login and signup\<close>

text \<open>
  \<open>bcrypt.compare(s, hash)\<close> of bcryptjs rejects with an error unless both arguments are
  strings; \<open>cmp\<close> is its verdict on two strings.
\<close>

definition bcrypt_compare ::
  "(string \<Rightarrow> string \<Rightarrow> bool) \<Rightarrow> string option \<Rightarrow> string option \<Rightarrow> js_error + bool" where
  "bcrypt_compare cmp s h =
     (case s of
        None \<Rightarrow> Inl IllegalArguments
      | Some s' \<Rightarrow> (case h of None \<Rightarrow> Inl IllegalArguments | Some h' \<Rightarrow> Inr (cmp s' h')))"

text \<open>
  \<open>POST /login\<close>, for the fields of the login form, each a string or absent. The session
  stores the email of the request. A rejected \<open>bcrypt.compare\<close> leaves the handler by an
  exception: the handler has no \<open>try\<close>.
\<close>

definition post_login ::
  "(string \<Rightarrow> string \<Rightarrow> bool) \<Rightarrow> string option \<Rightarrow> string option \<Rightarrow> state
     \<Rightarrow> response \<times> state" where
  "post_login cmp email_b password_b st =
     (case find (\<lambda>a. Some (email a) = map_option JString email_b) (admins st) of
        Some admin \<Rightarrow>
          (if \<not> truthy_string (password_hash admin) then (AdminNotConfigured, st)
           else (case bcrypt_compare cmp password_b (password_hash admin) of
                   Inl e \<Rightarrow> (Threw e, st)
                 | Inr ok \<Rightarrow>
                     if \<not> ok then (InvalidCredentials, st)
                     else (Redirect ''/'',
                           st\<lparr>session := Some \<lparr>sess_email = the email_b,
                                                sess_name = or_value (name admin)
                                                  (JString ''Admin''),
                                                sess_role = Admin\<rparr>\<rparr>)))
      | None \<Rightarrow>
          (case find (\<lambda>u. Some (email u) = map_option JString email_b) (users st) of
             None \<Rightarrow> (InvalidCredentials, st)
           | Some user \<Rightarrow>
               (case bcrypt_compare cmp password_b (password_hash user) of
                  Inl e \<Rightarrow> (Threw e, st)
                | Inr ok \<Rightarrow>
                    if \<not> ok then (InvalidCredentials, st)
                    else (Redirect ''/'',
                          st\<lparr>session := Some \<lparr>sess_email = the email_b,
                                               sess_name = or_value (name user)
                                                 (JString (takeWhile (\<lambda>c. c \<noteq> CHR ''@'')
                                                    (the email_b))),
                                               sess_role = User\<rparr>\<rparr>))))"

text \<open>
  \<open>bcrypt.hash(s, 10)\<close> of bcryptjs rejects with an error unless \<open>s\<close> is a string;
  \<open>hash\<close> is its result on a string in this call (the salt is random).
\<close>

definition bcrypt_hash :: "(string \<Rightarrow> string) \<Rightarrow> json option \<Rightarrow> js_error + string" where
  "bcrypt_hash hash s =
     (case s of Some (JString pw) \<Rightarrow> Inr (hash pw) | _ \<Rightarrow> Inl IllegalArguments)"

text \<open>
  \<open>POST /signup\<close>, for any values of the body fields. \<open>now\<close> is the clock reading of
  \<open>new Date()\<close>. Past the first check the email is a truthy value. The new record is
  pushed and the whole array written; the state holds it as the next \<open>readJSON\<close>
  returns it.
\<close>

definition post_signup ::
  "(string \<Rightarrow> string) \<Rightarrow> int \<Rightarrow> json option \<Rightarrow> json option \<Rightarrow> json option \<Rightarrow> state
     \<Rightarrow> response \<times> state" where
  "post_signup hash now name_b email_b password_b st =
     (if \<not> truthy email_b \<or> \<not> truthy password_b then (ValidationError, st)
      else
        (let e = the email_b
         in if list_ex (\<lambda>a. strict_eq (email a) e) (admins st)
               \<or> list_ex (\<lambda>u. strict_eq (email u) e) (users st)
            then (DuplicateEmail, st)
            else (case bcrypt_hash hash password_b of
                    Inl err \<Rightarrow> (Threw err, st)
                  | Inr h \<Rightarrow>
                      (Redirect ''/login'',
                       st\<lparr>users := map persist_account (users st @
                            [\<lparr>email = e,
                              password_hash = Some h,
                              name = Some (or_value name_b (JString [])),
                              createdAt_acc = Some now\<rparr>])\<rparr>))))"




section \<open>Reading a collection\<close>

fun code :: "js_error \<Rightarrow> string option" where
  "code (ErrnoError c) = Some c"
| "code SyntaxError = None"
| "code IllegalArguments = None"

text \<open>The \<open>catch\<close> block of \<open>readJSON\<close>.\<close>

definition readJSON_catch :: "js_error \<Rightarrow> js_error + json" where
  "readJSON_catch e = (if code e = Some ''ENOENT'' then Inr (JArray []) else Inl e)"

text \<open>
  \<open>readJSON(name)\<close>. \<open>readFile fname\<close> is the outcome of
  \<open>readFile(filePath(name), "utf-8")\<close>: the text of the file or the error thrown.
  \<open>parse\<close> is \<open>JSON.parse\<close>, which returns a value or throws a \<open>SyntaxError\<close>
  (\<open>None\<close>). Both calls are inside the \<open>try\<close>.
\<close>

definition readJSON ::
  "(string \<Rightarrow> json option) \<Rightarrow> (string \<Rightarrow> js_error + string) \<Rightarrow> string \<Rightarrow> js_error + json" where
  "readJSON parse readFile fname =
     (case readFile fname of
        Inl e \<Rightarrow> readJSON_catch e
      | Inr raw \<Rightarrow>
          (case parse (if raw = [] then ''[]'' else raw) of
             None \<Rightarrow> readJSON_catch SyntaxError
           | Some v \<Rightarrow> Inr v))"

text \<open>
  A parser to run \<open>readJSON\<close> on concrete files: \<open>JSON.parse\<close> on the texts that are,
  between JSON white space, one of the literals \<open>null\<close>, \<open>true\<close>, \<open>false\<close>, an empty
  array or an empty object. The empty text is a syntax error. Texts that hold numbers,
  strings or non-empty containers are outside what it covers (it rejects them); the
  theorems about \<open>readJSON\<close> are stated for every parser.
\<close>

definition is_ws :: "char \<Rightarrow> bool" where
  "is_ws c = (c = CHR '' '' \<or> c = CHR 0x09 \<or> c = CHR 0x0A \<or> c = CHR 0x0D)"

definition strip_ws :: "string \<Rightarrow> string" where
  "strip_ws s = rev (dropWhile is_ws (rev (dropWhile is_ws s)))"

definition JSON_parse_fragment :: "string \<Rightarrow> json option" where
  "JSON_parse_fragment s =
     (let t = strip_ws s
      in if t = ''null'' then Some JNull
         else if t = ''true'' then Some (JBool True)
         else if t = ''false'' then Some (JBool False)
         else (case t of
                 [] \<Rightarrow> None
               | c # r \<Rightarrow>
                   if r = [] then None
                   else if c = CHR ''['' \<and> last r = CHR '']'' \<and> list_all is_ws (butlast r)
                     then Some (JArray [])
                   else if c = CHR ''{'' \<and> last r = CHR ''}'' \<and> list_all is_ws (butlast r)
                     then Some (JObject [])
                   else None))"

section \<open>Predicates of the specification\<close>

text \<open>No email is in both the likes and the dislikes of a post.\<close>

definition reaction_inv :: "post list \<Rightarrow> bool" where
  "reaction_inv ps = list_all (\<lambda>p. list_all (\<lambda>e. e \<notin> set (dislikes p)) (likes p)) ps"





section \<open>Concrete states\<close>

text \<open>
  Sessions, posts, accounts and files on which the handlers are run below.
  \<open>demo_hash\<close> and \<open>demo_compare\<close> stand for \<open>bcrypt.hash\<close> and
  \<open>bcrypt.compare\<close> there: the comparison accepts exactly the hash of the password.
\<close>

definition alice :: session_user where
  "alice = \<lparr>sess_email = ''alice@x.com'', sess_name = JString ''Alice'',
             sess_role = User\<rparr>"

definition bob :: session_user where
  "bob = \<lparr>sess_email = ''bob@x.com'', sess_name = JString ''Bob'', sess_role = User\<rparr>"

definition root :: session_user where
  "root = \<lparr>sess_email = ''admin@example.com'', sess_name = JString ''Admin'',
            sess_role = Admin\<rparr>"

definition post1 :: post where
  "post1 = \<lparr>post_id = ''p1'', title = ''Hi'', content = ''body'',
            authorEmail = ''alice@x.com'', authorName = JString ''Alice'', createdAt = 1000,
            likes = [''alice@x.com''], dislikes = [''bob@x.com'']\<rparr>"

definition post2 :: post where
  "post2 = \<lparr>post_id = ''p2'', title = ''Yo'', content = ''text'',
            authorEmail = ''bob@x.com'', authorName = JString ''Bob'', createdAt = 2000,
            likes = [], dislikes = []\<rparr>"

definition blog_state :: "session_user \<Rightarrow> state" where
  "blog_state su = \<lparr>admins = [], users = [], blogs = [post1, post2], session = Some su\<rparr>"

definition empty_blog :: state where
  "empty_blog = \<lparr>admins = [], users = [], blogs = [], session = Some alice\<rparr>"

definition demo_hash :: "string \<Rightarrow> string" where
  "demo_hash pw = ''H('' @ pw @ '')''"

definition demo_compare :: "string \<Rightarrow> string \<Rightarrow> bool" where
  "demo_compare pw h = (h = demo_hash pw)"

definition admin_root :: account where
  "admin_root = \<lparr>email = JString ''admin@example.com'', password_hash = Some ''H(secret)'',
                 name = None, createdAt_acc = None\<rparr>"

definition admin_unset :: account where
  "admin_unset = \<lparr>email = JString ''ops@example.com'', password_hash = Some [],
                  name = Some (JString ''Ops''), createdAt_acc = None\<rparr>"

definition user_alice :: account where
  "user_alice = \<lparr>email = JString ''alice@x.com'', password_hash = Some ''H(pw1)'',
                 name = Some (JString []), createdAt_acc = Some 500\<rparr>"

definition user_shadow :: account where
  "user_shadow = \<lparr>email = JString ''admin@example.com'', password_hash = Some ''H(pw2)'',
                  name = Some (JString ''Mallory''), createdAt_acc = Some 600\<rparr>"

definition accounts_state :: state where
  "accounts_state =
     \<lparr>admins = [admin_root, admin_unset], users = [user_alice], blogs = [], session = None\<rparr>"

definition shadowed_state :: state where
  "shadowed_state = accounts_state\<lparr>users := [user_alice, user_shadow]\<rparr>"

text \<open>Outcomes of \<open>readFile\<close> by file name, for concrete runs of \<open>readJSON\<close>.\<close>

definition disk :: "string \<Rightarrow> js_error + string" where
  "disk fname =
     (if fname = ''blogs.json'' then Inr []
      else if fname = ''users.json'' then Inr ''{}''
      else if fname = ''admins.json'' then Inr ''[''
      else if fname = ''data'' then Inl (ErrnoError ''EISDIR'')
      else Inl (ErrnoError ''ENOENT''))"

section \<open>Lists and toggles\<close>

lemma reaction_inv_iff:
  "reaction_inv ps \<longleftrightarrow> (\<forall>p\<in>set ps. set (likes p) \<inter> set (dislikes p) = {})"
  by (auto simp: reaction_inv_def list_all_iff)

lemma toggle_like_disjoint:
  "set (likes p) \<inter> set (dislikes p) = {} \<Longrightarrow>
   set (likes (toggle_like u p)) \<inter> set (dislikes (toggle_like u p)) = {}"
  by (auto simp: toggle_like_def Let_def)

lemma toggle_dislike_disjoint:
  "set (likes p) \<inter> set (dislikes p) = {} \<Longrightarrow>
   set (likes (toggle_dislike u p)) \<inter> set (dislikes (toggle_dislike u p)) = {}"
  by (auto simp: toggle_dislike_def Let_def)

lemma set_update_first: "set (update_first P f xs) \<subseteq> set xs \<union> f ` set xs"
  by (induction xs) auto

lemma reaction_inv_update_first:
  assumes "reaction_inv ps"
    and "\<And>p. set (likes p) \<inter> set (dislikes p) = {} \<Longrightarrow> set (likes (f p)) \<inter> set (dislikes (f p)) = {}"
  shows "reaction_inv (update_first P f ps)"
  using assms set_update_first [of P f ps] unfolding reaction_inv_iff by blast

lemma find_update_first:
  "(\<And>x. P (f x) = P x) \<Longrightarrow> find P (update_first P f xs) = map_option f (find P xs)"
  by (induction xs) auto

lemma post_id_toggle_like [simp]: "post_id (toggle_like u p) = post_id p"
  by (simp add: toggle_like_def Let_def)

lemma post_id_toggle_dislike [simp]: "post_id (toggle_dislike u p) = post_id p"
  by (simp add: toggle_dislike_def Let_def)

lemma reaction_inv_splice1: "reaction_inv ps \<Longrightarrow> reaction_inv (splice1 i ps)"
  unfolding reaction_inv_iff splice1_def
  by (auto dest: in_set_takeD in_set_dropD)

lemma like_blogs:
  "reaction_inv (blogs st) \<Longrightarrow> reaction_inv (blogs (snd (post_like pid st)))"
  by (simp add: post_like_def reaction_inv_update_first toggle_like_disjoint
      split: option.splits)

lemma dislike_blogs:
  "reaction_inv (blogs st) \<Longrightarrow> reaction_inv (blogs (snd (post_dislike pid st)))"
  by (simp add: post_dislike_def reaction_inv_update_first toggle_dislike_disjoint
      split: option.splits)

lemma create_blogs:
  "reaction_inv (blogs st) \<Longrightarrow> reaction_inv (blogs (snd (post_posts trim nid now t c st)))"
  by (simp add: post_posts_def new_post_def reaction_inv_def Let_def split: option.splits)

lemma delete_blogs:
  "reaction_inv (blogs st) \<Longrightarrow> reaction_inv (blogs (snd (delete_post pid st)))"
  by (simp add: delete_post_def reaction_inv_splice1 Let_def split: option.splits)

lemma signup_blogs: "blogs (snd (post_signup hash now n e pw st)) = blogs st"
  by (simp add: post_signup_def Let_def split: sum.splits)

lemma login_blogs: "blogs (snd (post_login cmp e pw st)) = blogs st"
  by (simp add: post_login_def split: option.splits sum.splits)

lemma toggle_like_twice_likes: "set (likes (toggle_like u (toggle_like u p))) = set (likes p)"
  by (auto simp: toggle_like_def Let_def)

lemma toggle_like_twice_dislikes:
  "dislikes (toggle_like u (toggle_like u p)) = filter (\<lambda>e. e \<noteq> u) (dislikes p)"
  by (auto simp: toggle_like_def Let_def)

lemma post_like_found:
  "session st = Some su \<Longrightarrow> find (\<lambda>p. post_id p = pid) (blogs st) = Some p \<Longrightarrow>
   post_like pid st =
     (Redirect ''/'', st\<lparr>blogs := update_first (\<lambda>p. post_id p = pid)
                                   (toggle_like (sess_email su)) (blogs st)\<rparr>)"
  by (simp add: post_like_def)

lemma post_like_twice:
  assumes "session st = Some su" and "find (\<lambda>p. post_id p = pid) (blogs st) = Some p"
  shows "find (\<lambda>p. post_id p = pid) (blogs (snd (post_like pid (snd (post_like pid st)))))
         = Some (toggle_like (sess_email su) (toggle_like (sess_email su) p))"
proof -
  let ?f = "toggle_like (sess_email su)"
  let ?P = "\<lambda>p. post_id p = pid"
  let ?st1 = "snd (post_like pid st)"
  have s1: "?st1 = st\<lparr>blogs := update_first ?P ?f (blogs st)\<rparr>"
    using assms by (simp add: post_like_found)
  have f1: "find ?P (blogs ?st1) = Some (?f p)"
    using assms(2) by (simp add: s1 find_update_first)
  have "session ?st1 = Some su" using assms(1) by (simp add: s1)
  then have s2: "snd (post_like pid ?st1) = ?st1\<lparr>blogs := update_first ?P ?f (blogs ?st1)\<rparr>"
    using f1 by (simp add: post_like_found)
  show ?thesis
    using f1 by (simp add: s2 find_update_first)
qed

lemma findIndex_None: "(\<forall>x\<in>set xs. \<not> P x) \<Longrightarrow> findIndex P xs = None"
  by (induction xs) auto

lemma findIndex_first:
  "(\<forall>x\<in>set xs. \<not> P x) \<Longrightarrow> P y \<Longrightarrow> findIndex P (xs @ y # ys) = Some (length xs)"
  by (induction xs) auto

lemma splice1_length: "splice1 (length xs) (xs @ y # ys) = xs @ ys"
  by (simp add: splice1_def)

section \<open>The reaction invariant\<close>

text \<open>
  Claim C1. If no email is in both the likes and the dislikes of any post, then the same
  holds after a like or a dislike request, and after a request to create a post, delete a
  post, sign up or log in, whatever the request and whether it succeeds or not.
\<close>

theorem reaction_invariant_preserved:
  assumes "reaction_inv (blogs st)"
  shows "reaction_inv (blogs (snd (post_like pid st)))
       \<and> reaction_inv (blogs (snd (post_dislike pid st)))
       \<and> reaction_inv (blogs (snd (post_posts trim nid now title_b content_b st)))
       \<and> reaction_inv (blogs (snd (delete_post pid st)))
       \<and> reaction_inv (blogs (snd (post_signup hash now name_b email_b password_b st)))
       \<and> reaction_inv (blogs (snd (post_login cmp email_l password_l st)))"
  using assms
  by (simp add: like_blogs dislike_blogs create_blogs delete_blogs signup_blogs login_blogs)

theorem reaction_invariant_preserved_witness:
  "reaction_inv (blogs (blog_state alice))
   \<and> reaction_inv (blogs (snd (post_like ''p1'' (blog_state alice))))
   \<and> reaction_inv (blogs (snd (post_dislike ''p1'' (blog_state alice))))
   \<and> reaction_inv (blogs (snd (post_posts id ''p3'' 3000 (Some ''T'') (Some ''C'')
        (blog_state alice))))
   \<and> reaction_inv (blogs (snd (delete_post ''p1'' (blog_state alice))))
   \<and> reaction_inv (blogs (snd (post_signup id 4000 (Some (JString ''Carol''))
        (Some (JString ''carol@x.com'')) (Some (JString ''pw'')) (blog_state alice))))
   \<and> reaction_inv (blogs (snd (post_login (=) (Some ''carol@x.com'') (Some ''pw'')
        (blog_state alice))))"
proof -
  have h: "reaction_inv (blogs (blog_state alice))"
    by (simp add: reaction_inv_def blog_state_def post1_def post2_def)
  show ?thesis
    using h reaction_invariant_preserved [OF h] by blast
qed

section \<open>Deleting a post\<close>

text \<open>
  Claim C2. For a logged-in requester: when no post has the given id, the request fails
  with NotFound and the state is unchanged; when \<open>p\<close> is the first post with that id
  and the requester is neither an admin nor the author of \<open>p\<close>, it fails with Forbidden
  and the state is unchanged; when the requester is an admin or the author, exactly
  \<open>p\<close> is removed from the collection, which is written back.
\<close>

theorem delete_post_correct:
  assumes "session st = Some su"
  shows "((\<forall>q\<in>set (blogs st). post_id q \<noteq> pid) \<longrightarrow> delete_post pid st = (NotFound, st))
       \<and> (blogs st = xs @ p # ys \<and> (\<forall>q\<in>set xs. post_id q \<noteq> pid) \<and> post_id p = pid \<longrightarrow>
            (sess_role su \<noteq> Admin \<and> authorEmail p \<noteq> sess_email su \<longrightarrow>
               delete_post pid st = (Forbidden, st))
          \<and> (sess_role su = Admin \<or> authorEmail p = sess_email su \<longrightarrow>
               delete_post pid st = (Redirect ''/'', st\<lparr>blogs := xs @ ys\<rparr>)))"
proof (intro conjI impI)
  assume "\<forall>q\<in>set (blogs st). post_id q \<noteq> pid"
  then have "findIndex (\<lambda>p. post_id p = pid) (blogs st) = None"
    by (simp add: findIndex_None)
  then show "delete_post pid st = (NotFound, st)"
    using assms by (simp add: delete_post_def)
next
  assume d: "blogs st = xs @ p # ys \<and> (\<forall>q\<in>set xs. post_id q \<noteq> pid) \<and> post_id p = pid"
  then have i: "findIndex (\<lambda>p. post_id p = pid) (blogs st) = Some (length xs)"
    by (simp add: findIndex_first)
  have n: "blogs st ! length xs = p" using d by simp
  have a: "isAdmin st \<longleftrightarrow> sess_role su = Admin"
    using assms by (simp add: isAdmin_def isLoggedIn_def)
  {
    assume "sess_role su \<noteq> Admin \<and> authorEmail p \<noteq> sess_email su"
    then show "delete_post pid st = (Forbidden, st)"
      using assms i n a by (simp add: delete_post_def)
  next
    assume "sess_role su = Admin \<or> authorEmail p = sess_email su"
    moreover have "splice1 (length xs) (blogs st) = xs @ ys"
      using d by (simp add: splice1_length)
    ultimately show "delete_post pid st = (Redirect ''/'', st\<lparr>blogs := xs @ ys\<rparr>)"
      using assms i n a by (auto simp: delete_post_def)
  }
qed

theorem delete_post_correct_witness:
  "delete_post ''p9'' (blog_state alice) = (NotFound, blog_state alice)
   \<and> delete_post ''p2'' (blog_state alice) = (Forbidden, blog_state alice)
   \<and> delete_post ''p1'' (blog_state alice) = (Redirect ''/'', (blog_state alice)\<lparr>blogs := [post2]\<rparr>)
   \<and> delete_post ''p1'' (blog_state root) = (Redirect ''/'', (blog_state root)\<lparr>blogs := [post2]\<rparr>)"
proof -
  have s: "session (blog_state alice) = Some alice" "session (blog_state root) = Some root"
    by (simp_all add: blog_state_def)
  have "delete_post ''p9'' (blog_state alice) = (NotFound, blog_state alice)"
    using delete_post_correct [OF s(1), of "''p9''"]
    by (simp add: blog_state_def post1_def post2_def)
  moreover have "delete_post ''p2'' (blog_state alice) = (Forbidden, blog_state alice)"
    using delete_post_correct [OF s(1), of "''p2''" "[post1]" post2 "[]"]
    by (simp add: blog_state_def post1_def post2_def alice_def)
  moreover have "delete_post ''p1'' (blog_state alice)
      = (Redirect ''/'', (blog_state alice)\<lparr>blogs := [post2]\<rparr>)"
    using delete_post_correct [OF s(1), of "''p1''" "[]" post1 "[post2]"]
    by (simp add: blog_state_def post1_def post2_def alice_def)
  moreover have "delete_post ''p1'' (blog_state root)
      = (Redirect ''/'', (blog_state root)\<lparr>blogs := [post2]\<rparr>)"
    using delete_post_correct [OF s(2), of "''p1''" "[]" post1 "[post2]"]
    by (simp add: blog_state_def post1_def post2_def root_def)
  ultimately show ?thesis by blast
qed

section \<open>Liking twice\<close>

text \<open>
  Claim C3 as stated fails for a requester who already likes the post: the first like
  request removes the like and the second adds it back, so after two consecutive requests
  the requester is in the likes of the post again.
\<close>

theorem like_twice_counterexample:
  "map likes (blogs (blog_state alice)) = [[''alice@x.com''], []]
   \<and> map likes (blogs (snd (post_like ''p1'' (snd (post_like ''p1'' (blog_state alice))))))
       = [[''alice@x.com''], []]"
  by (simp add: blog_state_def alice_def post1_def post2_def post_like_def toggle_like_def)

text \<open>
  Claim C3, amended. For an existing post and a logged-in requester who is not in the
  likes of the post, two consecutive like requests leave the requester in neither the
  likes nor the dislikes of the post.
\<close>

theorem like_twice_no_reaction:
  assumes "session st = Some su"
    and "find (\<lambda>p. post_id p = pid) (blogs st) = Some p"
    and "sess_email su \<notin> set (likes p)"
  shows "\<exists>p'. find (\<lambda>p. post_id p = pid) (blogs (snd (post_like pid (snd (post_like pid st)))))
               = Some p'
             \<and> sess_email su \<notin> set (likes p') \<and> sess_email su \<notin> set (dislikes p')"
proof -
  let ?p' = "toggle_like (sess_email su) (toggle_like (sess_email su) p)"
  have "sess_email su \<notin> set (likes ?p')"
    using assms(3) by (simp add: toggle_like_twice_likes)
  moreover have "sess_email su \<notin> set (dislikes ?p')"
    by (simp add: toggle_like_twice_dislikes)
  ultimately show ?thesis
    using post_like_twice [OF assms(1,2)] by blast
qed

theorem like_twice_no_reaction_witness:
  "\<exists>p'. find (\<lambda>p. post_id p = ''p1'')
           (blogs (snd (post_like ''p1'' (snd (post_like ''p1'' (blog_state bob)))))) = Some p'
        \<and> ''bob@x.com'' \<notin> set (likes p') \<and> ''bob@x.com'' \<notin> set (dislikes p')"
proof -
  have "session (blog_state bob) = Some bob"
    by (simp add: blog_state_def)
  moreover have "find (\<lambda>p. post_id p = ''p1'') (blogs (blog_state bob)) = Some post1"
    by (simp add: blog_state_def post1_def)
  moreover have "sess_email bob \<notin> set (likes post1)"
    by (simp add: bob_def post1_def)
  ultimately show ?thesis
    using like_twice_no_reaction [of "blog_state bob" bob "''p1''" post1]
    by (simp add: bob_def)
qed

text \<open>
  Claim C4. For an existing post and a logged-in requester, after two consecutive like
  requests the requester is in the likes of the post exactly if they were before (the set
  of likers is the same), and the requester is not in the dislikes: the dislikes are the
  former ones without the requester.
\<close>

theorem like_twice_restores_likes:
  assumes "session st = Some su"
    and "find (\<lambda>p. post_id p = pid) (blogs st) = Some p"
  shows "\<exists>p'. find (\<lambda>p. post_id p = pid) (blogs (snd (post_like pid (snd (post_like pid st)))))
               = Some p'
             \<and> (sess_email su \<in> set (likes p') \<longleftrightarrow> sess_email su \<in> set (likes p))
             \<and> set (likes p') = set (likes p)
             \<and> sess_email su \<notin> set (dislikes p')
             \<and> dislikes p' = filter (\<lambda>e. e \<noteq> sess_email su) (dislikes p)"
proof -
  let ?p' = "toggle_like (sess_email su) (toggle_like (sess_email su) p)"
  have "set (likes ?p') = set (likes p)"
    by (rule toggle_like_twice_likes)
  moreover have "dislikes ?p' = filter (\<lambda>e. e \<noteq> sess_email su) (dislikes p)"
    by (rule toggle_like_twice_dislikes)
  moreover have "sess_email su \<notin> set (dislikes ?p')"
    by (simp add: toggle_like_twice_dislikes)
  ultimately show ?thesis
    using post_like_twice [OF assms] by simp
qed

theorem like_twice_restores_likes_witness:
  "\<exists>p'. find (\<lambda>p. post_id p = ''p1'')
           (blogs (snd (post_like ''p1'' (snd (post_like ''p1'' (blog_state alice)))))) = Some p'
        \<and> ''alice@x.com'' \<in> set (likes p') \<and> set (likes p') = {''alice@x.com''}
        \<and> ''alice@x.com'' \<notin> set (dislikes p') \<and> dislikes p' = [''bob@x.com'']"
proof -
  have "session (blog_state alice) = Some alice"
    by (simp add: blog_state_def)
  moreover have "find (\<lambda>p. post_id p = ''p1'') (blogs (blog_state alice)) = Some post1"
    by (simp add: blog_state_def post1_def)
  ultimately show ?thesis
    using like_twice_restores_likes [of "blog_state alice" alice "''p1''" post1]
    by (simp add: alice_def post1_def)
qed

section \<open>Signup\<close>







text \<open>
  Claim C9. A signup request whose email or password is missing or empty (or another
  falsy value) fails with the validation error, whatever the account lists hold and
  whatever the hash function is (the check comes before the duplicate check and the
  hashing), and leaves the state as it was.
\<close>

theorem signup_validation_first:
  "\<not> truthy email_b \<or> \<not> truthy password_b \<Longrightarrow>
   post_signup hash now name_b email_b password_b st = (ValidationError, st)"
  by (simp add: post_signup_def)

theorem signup_validation_first_witness:
  "post_signup demo_hash 700 (Some (JString ''Bob'')) None (Some (JString ''pw''))
     accounts_state = (ValidationError, accounts_state)
   \<and> post_signup demo_hash 700 (Some (JString ''Bob'')) (Some (JString []))
       (Some (JString ''pw'')) accounts_state = (ValidationError, accounts_state)
   \<and> post_signup demo_hash 700 (Some (JString ''Bob'')) (Some (JString ''bob@x.com'')) None
       accounts_state = (ValidationError, accounts_state)
   \<and> post_signup demo_hash 700 (Some (JString ''Bob'')) (Some (JString ''alice@x.com''))
       (Some (JString [])) accounts_state = (ValidationError, accounts_state)
   \<and> post_signup demo_hash 700 (Some (JString ''Bob'')) (Some JNull)
       (Some (JString ''pw'')) accounts_state = (ValidationError, accounts_state)
   \<and> post_signup demo_hash 700 (Some (JString ''Bob'')) (Some (JNumber 0))
       (Some (JString ''pw'')) accounts_state = (ValidationError, accounts_state)
   \<and> post_signup demo_hash 700 (Some (JString ''Bob'')) (Some (JString ''bob@x.com''))
       (Some (JBool False)) accounts_state = (ValidationError, accounts_state)"
  using signup_validation_first [of None "Some (JString ''pw'')" demo_hash 700
      "Some (JString ''Bob'')" accounts_state]
    signup_validation_first [of "Some (JString [])" "Some (JString ''pw'')" demo_hash 700
      "Some (JString ''Bob'')" accounts_state]
    signup_validation_first [of "Some (JString ''bob@x.com'')" None demo_hash 700
      "Some (JString ''Bob'')" accounts_state]
    signup_validation_first [of "Some (JString ''alice@x.com'')" "Some (JString [])" demo_hash
      700 "Some (JString ''Bob'')" accounts_state]
    signup_validation_first [of "Some JNull" "Some (JString ''pw'')" demo_hash 700
      "Some (JString ''Bob'')" accounts_state]
    signup_validation_first [of "Some (JNumber 0)" "Some (JString ''pw'')" demo_hash 700
      "Some (JString ''Bob'')" accounts_state]
    signup_validation_first [of "Some (JString ''bob@x.com'')" "Some (JBool False)" demo_hash
      700 "Some (JString ''Bob'')" accounts_state]
  by simp




section \<open>Login\<close>

lemma find_None_email:
  "JString e \<notin> email ` set xs \<Longrightarrow> find (\<lambda>a. Some (email a) = Some (JString e)) xs = None"
  by (induction xs) auto

lemma find_Some_email: "find (\<lambda>a. email a = v) xs = Some a \<Longrightarrow> email a = v"
  by (induction xs) (auto split: if_splits)

text \<open>
  On a request that carries an email and a password, login does what the specification
  says: InvalidCredentials when the email is in neither list; when the admin list has
  the email, the first such record decides, with AdminNotConfigured when it has no
  password hash, InvalidCredentials when the password does not match its hash, and
  otherwise a session with the email, the display name and the role admin; when only the
  user list has the email, InvalidCredentials on a mismatch and otherwise a session with
  the role user.
\<close>

lemma post_login_cases:
  "(JString e \<notin> email ` set (admins st) \<and> JString e \<notin> email ` set (users st) \<longrightarrow>
      post_login cmp (Some e) password_b st = (InvalidCredentials, st))
   \<and> (find (\<lambda>a. email a = JString e) (admins st) = Some a \<longrightarrow>
        (\<not> truthy_string (password_hash a) \<longrightarrow>
           post_login cmp (Some e) password_b st = (AdminNotConfigured, st))
      \<and> (password_hash a = Some h \<and> h \<noteq> [] \<and> \<not> cmp pw h \<longrightarrow>
           post_login cmp (Some e) (Some pw) st = (InvalidCredentials, st))
      \<and> (password_hash a = Some h \<and> h \<noteq> [] \<and> cmp pw h \<longrightarrow>
           post_login cmp (Some e) (Some pw) st =
             (Redirect ''/'',
              st\<lparr>session := Some \<lparr>sess_email = e,
                                   sess_name = or_value (name a) (JString ''Admin''),
                                   sess_role = Admin\<rparr>\<rparr>)))
   \<and> (JString e \<notin> email ` set (admins st)
        \<and> find (\<lambda>u. email u = JString e) (users st) = Some u \<longrightarrow>
        (password_hash u = Some h \<and> \<not> cmp pw h \<longrightarrow>
           post_login cmp (Some e) (Some pw) st = (InvalidCredentials, st))
      \<and> (password_hash u = Some h \<and> cmp pw h \<longrightarrow>
           post_login cmp (Some e) (Some pw) st =
             (Redirect ''/'',
              st\<lparr>session := Some \<lparr>sess_email = e,
                                   sess_name = or_value (name u)
                                     (JString (takeWhile (\<lambda>c. c \<noteq> CHR ''@'') e)),
                                   sess_role = User\<rparr>\<rparr>)))"
proof (intro conjI impI)
  assume "JString e \<notin> email ` set (admins st) \<and> JString e \<notin> email ` set (users st)"
  then show "post_login cmp (Some e) password_b st = (InvalidCredentials, st)"
    by (simp add: post_login_def find_None_email del: option.inject)
next
  assume f: "find (\<lambda>a. email a = JString e) (admins st) = Some a"
  {
    assume "\<not> truthy_string (password_hash a)"
    then show "post_login cmp (Some e) password_b st = (AdminNotConfigured, st)"
      using f by (simp add: post_login_def)
  next
    assume "password_hash a = Some h \<and> h \<noteq> [] \<and> \<not> cmp pw h"
    then show "post_login cmp (Some e) (Some pw) st = (InvalidCredentials, st)"
      using f by (simp add: post_login_def bcrypt_compare_def)
  next
    assume "password_hash a = Some h \<and> h \<noteq> [] \<and> cmp pw h"
    then show "post_login cmp (Some e) (Some pw) st =
             (Redirect ''/'',
              st\<lparr>session := Some \<lparr>sess_email = e,
                                   sess_name = or_value (name a) (JString ''Admin''),
                                   sess_role = Admin\<rparr>\<rparr>)"
      using f by (simp add: post_login_def bcrypt_compare_def)
  }
next
  assume f: "JString e \<notin> email ` set (admins st)
    \<and> find (\<lambda>u. email u = JString e) (users st) = Some u"
  then have n: "find (\<lambda>a. Some (email a) = Some (JString e)) (admins st) = None"
    by (simp add: find_None_email del: option.inject)
  have u: "find (\<lambda>a. Some (email a) = Some (JString e)) (users st) = Some u"
    using f by simp
  {
    assume "password_hash u = Some h \<and> \<not> cmp pw h"
    then show "post_login cmp (Some e) (Some pw) st = (InvalidCredentials, st)"
      using n u by (simp add: post_login_def bcrypt_compare_def del: option.inject)
  next
    assume "password_hash u = Some h \<and> cmp pw h"
    then show "post_login cmp (Some e) (Some pw) st =
             (Redirect ''/'',
              st\<lparr>session := Some \<lparr>sess_email = e,
                                   sess_name = or_value (name u)
                                     (JString (takeWhile (\<lambda>c. c \<noteq> CHR ''@'') e)),
                                   sess_role = User\<rparr>\<rparr>)"
      using n u by (simp add: post_login_def bcrypt_compare_def del: option.inject)
  }
qed

text \<open>
  On a request without a password, a registered email never gets an answer: when the
  record found has a password hash, \<open>bcrypt.compare(undefined, hash)\<close> rejects and the
  handler throws.
\<close>

lemma post_login_no_password:
  "(find (\<lambda>a. email a = JString e) (admins st) = Some a \<and> truthy_string (password_hash a) \<longrightarrow>
      post_login cmp (Some e) None st = (Threw IllegalArguments, st))
   \<and> (JString e \<notin> email ` set (admins st)
        \<and> find (\<lambda>u. email u = JString e) (users st) = Some u \<longrightarrow>
      post_login cmp (Some e) None st = (Threw IllegalArguments, st))"
proof (intro conjI impI)
  assume "find (\<lambda>a. email a = JString e) (admins st) = Some a
    \<and> truthy_string (password_hash a)"
  then show "post_login cmp (Some e) None st = (Threw IllegalArguments, st)"
    by (simp add: post_login_def bcrypt_compare_def)
next
  assume f: "JString e \<notin> email ` set (admins st)
    \<and> find (\<lambda>u. email u = JString e) (users st) = Some u"
  then have "find (\<lambda>a. Some (email a) = Some (JString e)) (admins st) = None"
    by (simp add: find_None_email del: option.inject)
  moreover have "find (\<lambda>a. Some (email a) = Some (JString e)) (users st) = Some u"
    using f by simp
  ultimately show "post_login cmp (Some e) None st = (Threw IllegalArguments, st)"
    by (simp add: post_login_def bcrypt_compare_def del: option.inject)
qed

text \<open>
  Claim C6. The claim has login fail with InvalidCredentials whenever the password does
  not match the stored hash. The handler does so for a password that is given, but it
  never checks that there is one (signup does): for the registered user
  \<open>alice@x.com\<close>, and for the admin \<open>admin@example.com\<close>, a request without a password
  is not answered with InvalidCredentials; the handler throws and the state is as before.
  With a wrong password the same two requests are answered with InvalidCredentials.
\<close>

theorem login_missing_password_throws:
  "map email (users accounts_state) = [JString ''alice@x.com'']
   \<and> map password_hash (users accounts_state) = [Some ''H(pw1)'']
   \<and> post_login demo_compare (Some ''alice@x.com'') None accounts_state
       = (Threw IllegalArguments, accounts_state)
   \<and> post_login demo_compare (Some ''alice@x.com'') (Some ''wrong'') accounts_state
       = (InvalidCredentials, accounts_state)
   \<and> post_login demo_compare (Some ''admin@example.com'') None accounts_state
       = (Threw IllegalArguments, accounts_state)
   \<and> post_login demo_compare (Some ''admin@example.com'') (Some ''wrong'') accounts_state
       = (InvalidCredentials, accounts_state)"
  by (simp add: post_login_def bcrypt_compare_def accounts_state_def admin_root_def
      admin_unset_def user_alice_def demo_compare_def demo_hash_def)

text \<open>
  Claim C10. When the admin list has the email, the outcome of login is the same for
  every user list; a password that does not match the hash of the admin record fails
  with InvalidCredentials or AdminNotConfigured and leaves the state unchanged, even when
  a user record with the same email has a hash that the password matches; and a
  successful login has the role admin.
\<close>

theorem admin_email_shadows_user:
  assumes "find (\<lambda>a. email a = JString e) (admins st) = Some a"
  shows "post_login cmp (Some e) password_b (st\<lparr>users := us\<rparr>)
           = (fst (post_login cmp (Some e) password_b st),
              (snd (post_login cmp (Some e) password_b st))\<lparr>users := us\<rparr>)
       \<and> ((\<forall>h. password_hash a = Some h \<longrightarrow> \<not> cmp pw h) \<longrightarrow>
            (fst (post_login cmp (Some e) (Some pw) st) = InvalidCredentials
             \<or> fst (post_login cmp (Some e) (Some pw) st) = AdminNotConfigured)
            \<and> snd (post_login cmp (Some e) (Some pw) st) = st)
       \<and> (fst (post_login cmp (Some e) password_b st) = Redirect ''/'' \<longrightarrow>
            map_option sess_role (session (snd (post_login cmp (Some e) password_b st)))
              = Some Admin)"
proof (intro conjI impI)
  show "post_login cmp (Some e) password_b (st\<lparr>users := us\<rparr>)
           = (fst (post_login cmp (Some e) password_b st),
              (snd (post_login cmp (Some e) password_b st))\<lparr>users := us\<rparr>)"
    using assms by (simp add: post_login_def split: sum.splits)
next
  assume "\<forall>h. password_hash a = Some h \<longrightarrow> \<not> cmp pw h"
  then show "fst (post_login cmp (Some e) (Some pw) st) = InvalidCredentials
             \<or> fst (post_login cmp (Some e) (Some pw) st) = AdminNotConfigured"
    and "snd (post_login cmp (Some e) (Some pw) st) = st"
    using assms by (auto simp: post_login_def bcrypt_compare_def split: option.splits)
next
  assume "fst (post_login cmp (Some e) password_b st) = Redirect ''/''"
  then show "map_option sess_role (session (snd (post_login cmp (Some e) password_b st)))
              = Some Admin"
    using assms by (auto simp: post_login_def split: sum.splits if_splits)
qed

theorem admin_email_shadows_user_witness:
  "post_login demo_compare (Some ''admin@example.com'') (Some ''pw2'') shadowed_state
     = (fst (post_login demo_compare (Some ''admin@example.com'') (Some ''pw2'')
              accounts_state),
        (snd (post_login demo_compare (Some ''admin@example.com'') (Some ''pw2'')
              accounts_state))\<lparr>users := [user_alice, user_shadow]\<rparr>)
   \<and> fst (post_login demo_compare (Some ''admin@example.com'') (Some ''pw2'') shadowed_state)
       = InvalidCredentials
   \<and> snd (post_login demo_compare (Some ''admin@example.com'') (Some ''pw2'') shadowed_state)
       = shadowed_state
   \<and> demo_compare ''pw2'' ''H(pw2)'' \<and> password_hash user_shadow = Some ''H(pw2)''
   \<and> map_option sess_role (session (snd
         (post_login demo_compare (Some ''admin@example.com'') (Some ''secret'') shadowed_state)))
       = Some Admin"
proof -
  note defs = shadowed_state_def accounts_state_def admin_root_def admin_unset_def
    user_alice_def user_shadow_def demo_compare_def demo_hash_def
  have f: "find (\<lambda>a. email a = JString ''admin@example.com'') (admins accounts_state)
      = Some admin_root"
    "find (\<lambda>a. email a = JString ''admin@example.com'') (admins shadowed_state)
      = Some admin_root"
    by (simp_all add: defs)
  have "post_login demo_compare (Some ''admin@example.com'') (Some ''pw2'') shadowed_state
     = (fst (post_login demo_compare (Some ''admin@example.com'') (Some ''pw2'')
              accounts_state),
        (snd (post_login demo_compare (Some ''admin@example.com'') (Some ''pw2'')
              accounts_state))\<lparr>users := [user_alice, user_shadow]\<rparr>)"
    using admin_email_shadows_user [OF f(1), where cmp = demo_compare
        and password_b = "Some ''pw2''" and us = "[user_alice, user_shadow]"]
    by (simp add: shadowed_state_def)
  moreover have "\<forall>h. password_hash admin_root = Some h \<longrightarrow> \<not> demo_compare ''pw2'' h"
    by (simp add: defs)
  then have "(fst (post_login demo_compare (Some ''admin@example.com'') (Some ''pw2'')
                 shadowed_state) = InvalidCredentials
              \<or> fst (post_login demo_compare (Some ''admin@example.com'') (Some ''pw2'')
                 shadowed_state) = AdminNotConfigured)
            \<and> snd (post_login demo_compare (Some ''admin@example.com'') (Some ''pw2'')
                 shadowed_state) = shadowed_state"
    using admin_email_shadows_user [OF f(2), where cmp = demo_compare and pw = "''pw2''"]
    by blast
  moreover have "fst (post_login demo_compare (Some ''admin@example.com'') (Some ''pw2'')
                 shadowed_state) \<noteq> AdminNotConfigured"
    by (simp add: post_login_def defs bcrypt_compare_def)
  moreover have "demo_compare ''pw2'' ''H(pw2)''" "password_hash user_shadow = Some ''H(pw2)''"
    by (simp_all add: defs)
  moreover have "fst (post_login demo_compare (Some ''admin@example.com'') (Some ''secret'')
      shadowed_state) = Redirect ''/''"
    by (simp add: post_login_def defs bcrypt_compare_def)
  then have "map_option sess_role (session (snd
         (post_login demo_compare (Some ''admin@example.com'') (Some ''secret'') shadowed_state)))
       = Some Admin"
    using admin_email_shadows_user [OF f(2), where cmp = demo_compare
        and password_b = "Some ''secret''"]
    by blast
  ultimately show ?thesis by blast
qed

section \<open>Listing the posts\<close>

lemma mset_insert_sorted: "mset (insert_sorted cmp x xs) = add_mset x (mset xs)"
  by (induction xs) auto

lemma mset_Array_sort: "mset (Array_sort cmp xs) = mset xs"
  unfolding Array_sort_def by (induction xs) (auto simp: mset_insert_sorted)

lemma set_insert_sorted: "set (insert_sorted cmp x xs) = insert x (set xs)"
  by (induction xs) auto

lemma sorted_insert_sorted:
  "sorted_wrt (\<lambda>a b. createdAt b \<le> createdAt a) xs \<Longrightarrow>
   sorted_wrt (\<lambda>a b. createdAt b \<le> createdAt a)
     (insert_sorted (\<lambda>a b. createdAt b - createdAt a) x xs)"
  by (induction xs) (auto simp: set_insert_sorted)

lemma sorted_Array_sort:
  "sorted_wrt (\<lambda>a b. createdAt b \<le> createdAt a)
     (Array_sort (\<lambda>a b. createdAt b - createdAt a) xs)"
  unfolding Array_sort_def by (induction xs) (auto simp: sorted_insert_sorted)

lemma post_posts_logged_in:
  "session st = Some su \<Longrightarrow>
   post_posts trim nid now title_b content_b st =
     (Redirect ''/'', st\<lparr>blogs := blogs st @ [new_post trim nid now title_b content_b su]\<rparr>)"
  by (simp add: post_posts_def)

lemma createdAt_new_post [simp]: "createdAt (new_post trim nid now title_b content_b su) = now"
  by (simp add: new_post_def)

text \<open>
  Claim C7 as stated fails when the clock gives the three posts the same timestamp: the
  comparator returns 0 for every pair, the sort is stable, and the listing is in the
  order of creation.
\<close>

theorem listing_same_time_counterexample:
  "fst (get_index (snd (post_posts id ''c'' 1000 (Some ''P3'') None
          (snd (post_posts id ''b'' 1000 (Some ''P2'') None
            (snd (post_posts id ''a'' 1000 (Some ''P1'') None empty_blog)))))))
   = Render 200 (Index [new_post id ''a'' 1000 (Some ''P1'') None alice,
                        new_post id ''b'' 1000 (Some ''P2'') None alice,
                        new_post id ''c'' 1000 (Some ''P3'') None alice])
   \<and> new_post id ''a'' 1000 (Some ''P1'') None alice
       \<noteq> new_post id ''c'' 1000 (Some ''P3'') None alice"
  by (simp add: get_index_def post_posts_def empty_blog_def Array_sort_def new_post_def)

text \<open>
  Claim C7, amended. The listing holds exactly the posts of the store, ordered by
  creation timestamp descending, and nothing is written; and when a logged-in user
  creates three posts in an empty store at strictly increasing clock readings, the
  listing is the third, the second, the first.
\<close>

theorem listing_newest_first:
  "(\<exists>ps. get_index st = (Render 200 (Index ps), st)
         \<and> mset ps = mset (blogs st)
         \<and> sorted_wrt (\<lambda>a b. createdAt b \<le> createdAt a) ps)
   \<and> (session st0 = Some su \<and> blogs st0 = [] \<and> t1 < t2 \<and> t2 < t3 \<longrightarrow>
        fst (get_index (snd (post_posts trim i3 t3 ti3 c3
              (snd (post_posts trim i2 t2 ti2 c2
                (snd (post_posts trim i1 t1 ti1 c1 st0)))))))
        = Render 200 (Index [new_post trim i3 t3 ti3 c3 su,
                             new_post trim i2 t2 ti2 c2 su,
                             new_post trim i1 t1 ti1 c1 su]))"
proof (intro conjI impI)
  show "\<exists>ps. get_index st = (Render 200 (Index ps), st)
         \<and> mset ps = mset (blogs st)
         \<and> sorted_wrt (\<lambda>a b. createdAt b \<le> createdAt a) ps"
    by (simp add: get_index_def mset_Array_sort sorted_Array_sort)
next
  assume a: "session st0 = Some su \<and> blogs st0 = [] \<and> t1 < t2 \<and> t2 < t3"
  let ?st1 = "snd (post_posts trim i1 t1 ti1 c1 st0)"
  let ?st2 = "snd (post_posts trim i2 t2 ti2 c2 ?st1)"
  let ?st3 = "snd (post_posts trim i3 t3 ti3 c3 ?st2)"
  have s1: "session ?st1 = Some su" "blogs ?st1 = [new_post trim i1 t1 ti1 c1 su]"
    using a by (simp_all add: post_posts_logged_in)
  have s2: "session ?st2 = Some su"
    "blogs ?st2 = [new_post trim i1 t1 ti1 c1 su, new_post trim i2 t2 ti2 c2 su]"
    using s1 by (simp_all add: post_posts_logged_in)
  have s3: "blogs ?st3 = [new_post trim i1 t1 ti1 c1 su, new_post trim i2 t2 ti2 c2 su,
                          new_post trim i3 t3 ti3 c3 su]"
    using s2 by (simp add: post_posts_logged_in)
  show "fst (get_index ?st3)
        = Render 200 (Index [new_post trim i3 t3 ti3 c3 su,
                             new_post trim i2 t2 ti2 c2 su,
                             new_post trim i1 t1 ti1 c1 su])"
    using a by (simp add: get_index_def s3 Array_sort_def)
qed

theorem listing_newest_first_witness:
  "(\<exists>ps. get_index (blog_state alice) = (Render 200 (Index ps), blog_state alice)
         \<and> mset ps = mset (blogs (blog_state alice))
         \<and> sorted_wrt (\<lambda>a b. createdAt b \<le> createdAt a) ps)
   \<and> fst (get_index (snd (post_posts id ''c'' 1002 (Some ''P3'') None
          (snd (post_posts id ''b'' 1001 (Some ''P2'') None
            (snd (post_posts id ''a'' 1000 (Some ''P1'') None empty_blog)))))))
     = Render 200 (Index [new_post id ''c'' 1002 (Some ''P3'') None alice,
                          new_post id ''b'' 1001 (Some ''P2'') None alice,
                          new_post id ''a'' 1000 (Some ''P1'') None alice])"
proof -
  have "session empty_blog = Some alice \<and> blogs empty_blog = []
        \<and> (1000::int) < 1001 \<and> (1001::int) < 1002"
    by (simp add: empty_blog_def)
  then show ?thesis
    using listing_newest_first [where st = "blog_state alice" and ?st0.0 = empty_blog
        and su = alice and ?t1.0 = 1000 and ?t2.0 = 1001 and ?t3.0 = 1002]
    by simp
qed

section \<open>Reading a collection from a file\<close>

text \<open>
  Claim C8 as stated fails for a file whose text is not a JSON array: an empty file is
  read as the empty array, and a file that holds another JSON value, such as an object,
  is returned as that value; neither is an error.
\<close>

theorem readJSON_not_array_counterexample:
  "disk ''blogs.json'' = Inr [] \<and> JSON_parse_fragment [] = None
   \<and> readJSON JSON_parse_fragment disk ''blogs.json'' = Inr (JArray [])
   \<and> disk ''users.json'' = Inr ''{}'' \<and> JSON_parse_fragment ''{}'' = Some (JObject [])
   \<and> readJSON JSON_parse_fragment disk ''users.json'' = Inr (JObject [])"
  by (simp add: disk_def readJSON_def JSON_parse_fragment_def strip_ws_def is_ws_def)

text \<open>
  Claim C8, amended. \<open>readJSON\<close> returns the empty array when the file is missing
  (ENOENT) or empty; any other error of the read and a syntax error in a non-empty file
  are propagated; the value parsed from a non-empty file is returned as it is, array or
  not.
\<close>

theorem readJSON_outcomes:
  "(readFile fname = Inl (ErrnoError ''ENOENT'') \<longrightarrow>
      readJSON parse readFile fname = Inr (JArray []))
   \<and> (readFile fname = Inl e \<and> code e \<noteq> Some ''ENOENT'' \<longrightarrow>
      readJSON parse readFile fname = Inl e)
   \<and> (readFile fname = Inr raw \<and> raw \<noteq> [] \<and> parse raw = None \<longrightarrow>
      readJSON parse readFile fname = Inl SyntaxError)
   \<and> (readFile fname = Inr raw \<and> raw \<noteq> [] \<and> parse raw = Some v \<longrightarrow>
      readJSON parse readFile fname = Inr v)
   \<and> (readFile fname = Inr [] \<and> parse ''[]'' = Some (JArray []) \<longrightarrow>
      readJSON parse readFile fname = Inr (JArray []))"
  by (simp add: readJSON_def readJSON_catch_def)

theorem readJSON_outcomes_witness:
  "readJSON JSON_parse_fragment disk ''missing.json'' = Inr (JArray [])
   \<and> readJSON JSON_parse_fragment disk ''data'' = Inl (ErrnoError ''EISDIR'')
   \<and> readJSON JSON_parse_fragment disk ''admins.json'' = Inl SyntaxError
   \<and> readJSON JSON_parse_fragment disk ''users.json'' = Inr (JObject [])
   \<and> readJSON JSON_parse_fragment disk ''blogs.json'' = Inr (JArray [])"
proof -
  have p: "JSON_parse_fragment ''['' = None" "JSON_parse_fragment ''{}'' = Some (JObject [])"
    "JSON_parse_fragment ''[]'' = Some (JArray [])"
    by (simp_all add: JSON_parse_fragment_def strip_ws_def is_ws_def)
  have "readJSON JSON_parse_fragment disk ''missing.json'' = Inr (JArray [])"
    using readJSON_outcomes [where readFile = disk and fname = "''missing.json''"
        and parse = JSON_parse_fragment]
    by (simp add: disk_def)
  moreover have "readJSON JSON_parse_fragment disk ''data'' = Inl (ErrnoError ''EISDIR'')"
    using readJSON_outcomes [where readFile = disk and fname = "''data''"
        and parse = JSON_parse_fragment and e = "ErrnoError ''EISDIR''"]
    by (simp add: disk_def)
  moreover have "readJSON JSON_parse_fragment disk ''admins.json'' = Inl SyntaxError"
    using p readJSON_outcomes [where readFile = disk and fname = "''admins.json''"
        and parse = JSON_parse_fragment and raw = "''[''"]
    by (simp add: disk_def)
  moreover have "readJSON JSON_parse_fragment disk ''users.json'' = Inr (JObject [])"
    using p readJSON_outcomes [where readFile = disk and fname = "''users.json''"
        and parse = JSON_parse_fragment and raw = "''{}''" and v = "JObject []"]
    by (simp add: disk_def)
  moreover have "readJSON JSON_parse_fragment disk ''blogs.json'' = Inr (JArray [])"
    using p readJSON_outcomes [where readFile = disk and fname = "''blogs.json''"
        and parse = JSON_parse_fragment]
    by (simp add: disk_def)
  ultimately show ?thesis by blast
qed

end
